theory Spec2Isabelle
  imports Main "HOL-Library.AList" "HOL-Library.Sublist"
begin

section \<open>Python values, exceptions and the datetime library\<close>

text \<open>
  The client stores and forwards values it never inspects (the token fields come from a
  caller's dict or from a parsed JSON document), so they are modelled as Python values:
  \<open>None\<close>, booleans, integers, strings, lists and dicts with string keys. A dict is an
  association list in insertion order. Python floats are outside the model: a JSON number
  is an integer here.
\<close>

datatype pyval =
    PNone
  | PBool bool
  | PInt int
  | PStr string
  | PList "pyval list"
  | PDict "(string \<times> pyval) list"

type_synonym dict = "(string \<times> pyval) list"

text \<open>
  Exceptions are values. \<open>RequestException\<close> stands for whatever \<open>requests.get\<close> or
  \<open>requests.post\<close> raises instead of returning a response, \<open>JSONDecodeError\<close> for what
  \<open>response.json()\<close> raises on a body that is not JSON.
\<close>

datatype error =
    ValueError string
  | KeyError string
  | TypeError
  | OverflowError
  | RequestException
  | JSONDecodeError

text \<open>Truth value of an object, as \<open>not x\<close> tests it.\<close>

fun truthy :: "pyval \<Rightarrow> bool" where
  "truthy PNone = False"
| "truthy (PBool b) = b"
| "truthy (PInt n) = (n \<noteq> 0)"
| "truthy (PStr s) = (s \<noteq> [])"
| "truthy (PList xs) = (xs \<noteq> [])"
| "truthy (PDict d) = (d \<noteq> [])"

text \<open>
  \<open>k in x\<close> for a string \<open>k\<close>: key membership in a dict, element membership in a list,
  substring test in a string, and a TypeError on a value that is not a container.
\<close>

fun py_in :: "string \<Rightarrow> pyval \<Rightarrow> error + bool" where
  "py_in k (PDict d) = Inr (map_of d k \<noteq> None)"
| "py_in k (PList xs) = Inr (PStr k \<in> set xs)"
| "py_in k (PStr s) = Inr (sublist k s)"
| "py_in k PNone = Inl TypeError"
| "py_in k (PBool b) = Inl TypeError"
| "py_in k (PInt n) = Inl TypeError"

text \<open>
  \<open>x[k]\<close> for a string \<open>k\<close>: the value under the key in a dict (KeyError when the key
  is absent), a TypeError on everything else (lists and strings take integer indices, the
  other values are not subscriptable).
\<close>

fun py_getitem :: "pyval \<Rightarrow> string \<Rightarrow> error + pyval" where
  "py_getitem (PDict d) k = (case map_of d k of None \<Rightarrow> Inl (KeyError k) | Some v \<Rightarrow> Inr v)"
| "py_getitem (PList xs) k = Inl TypeError"
| "py_getitem (PStr s) k = Inl TypeError"
| "py_getitem PNone k = Inl TypeError"
| "py_getitem (PBool b) k = Inl TypeError"
| "py_getitem (PInt n) k = Inl TypeError"

text \<open>Decimal digits of a natural number and of an integer, as \<open>str\<close> prints them.\<close>

fun str_nat :: "nat \<Rightarrow> string" where
  "str_nat n =
     (if n < 10 then [char_of (48 + n)]
      else str_nat (n div 10) @ [char_of (48 + n mod 10)])"

definition str_int :: "int \<Rightarrow> string" where
  "str_int i = (if i < 0 then CHR ''-'' # str_nat (nat (- i)) else str_nat (nat i))"

text \<open>
  A datetime is the number of microseconds since \<open>datetime.min\<close> (0001-01-01 00:00:00);
  \<open>datetime.max\<close> is 9999-12-31 23:59:59.999999. A timedelta is a number of
  microseconds.
\<close>

type_synonym datetime = int

definition datetime_max :: datetime where
  "datetime_max = 315537897599999999"

text \<open>
  \<open>timedelta(seconds=x)\<close>: an integer number of seconds (a bool counts as 0 or 1), with
  an OverflowError when the number of days leaves \<open>\<plusminus>999999999\<close>, and a TypeError on any
  other value.
\<close>

fun timedelta_seconds :: "pyval \<Rightarrow> error + int" where
  "timedelta_seconds (PInt n) =
     (if - 999999999 \<le> n div 86400 \<and> n div 86400 \<le> 999999999
      then Inr (n * 1000000) else Inl OverflowError)"
| "timedelta_seconds (PBool b) = Inr (if b then 1000000 else 0)"
| "timedelta_seconds PNone = Inl TypeError"
| "timedelta_seconds (PStr s) = Inl TypeError"
| "timedelta_seconds (PList xs) = Inl TypeError"
| "timedelta_seconds (PDict d) = Inl TypeError"

text \<open>\<open>t + delta\<close> on a datetime: an OverflowError outside \<open>datetime.min .. datetime.max\<close>.\<close>

definition datetime_add :: "datetime \<Rightarrow> int \<Rightarrow> error + datetime" where
  "datetime_add t us =
     (if 0 \<le> t + us \<and> t + us \<le> datetime_max then Inr (t + us) else Inl OverflowError)"

section \<open>The outside world: HTTP and the clock\<close>

datatype http_method = GET | POST

text \<open>
  A request as the arguments of \<open>requests.get\<close> or \<open>requests.post\<close>: the keyword
  arguments that a call does not pass are \<open>None\<close>.
\<close>

record request =
  verb :: http_method
  url :: string
  params :: "dict option"
  headers :: "dict option"
  data :: "dict option"
  files :: "dict option"

text \<open>
  Of a response the client reads only \<open>response.json()\<close>, which returns the parsed body
  or raises; the status code is there to show that nothing depends on it.
\<close>

record response =
  status_code :: int
  json :: "error + pyval"

text \<open>
  The environment is what the code takes from outside: the server (its answer to the
  latest request, which may depend on every request sent so far), the clock (its n-th
  reading by \<open>datetime.now()\<close>), and Python's \<open>repr\<close>, used by string formatting for
  lists and dicts.
\<close>

record env =
  server :: "request list \<Rightarrow> error + response"
  clock :: "nat \<Rightarrow> datetime"
  repr :: "pyval \<Rightarrow> string"

text \<open>
  The world is what the code changes outside the client object: the requests sent so far
  (oldest first), the number of clock readings, and the dict that is the default value of
  \<open>authorize_header\<close>'s parameter \<open>h\<close>. Python creates that dict once, when the function
  is defined, and every call without an argument works on this one object.
\<close>

record world =
  sent :: "request list"
  ticks :: nat
  default_h :: dict

definition world0 :: world where
  "world0 = \<lparr>sent = [], ticks = 0, default_h = []\<rparr>"

definition send :: "env \<Rightarrow> request \<Rightarrow> world \<Rightarrow> (error + response) \<times> world" where
  "send e r w = (server e (sent w @ [r]), w\<lparr>sent := sent w @ [r]\<rparr>)"

definition now :: "env \<Rightarrow> world \<Rightarrow> datetime \<times> world" where
  "now e w = (clock e (ticks w), w\<lparr>ticks := Suc (ticks w)\<rparr>)"

text \<open>\<open>f"{x}"\<close>: a string as it is, the scalars as \<open>str\<close> prints them.\<close>

fun py_str :: "env \<Rightarrow> pyval \<Rightarrow> string" where
  "py_str e (PStr s) = s"
| "py_str e PNone = ''None''"
| "py_str e (PBool b) = (if b then ''True'' else ''False'')"
| "py_str e (PInt n) = str_int n"
| "py_str e (PList xs) = repr e (PList xs)"
| "py_str e (PDict d) = repr e (PDict d)"

section \<open>The client\<close>

record client =
  dc :: string
  client_id :: pyval
  client_secret :: pyval
  refresh_token :: pyval
  redirect_uri :: string
  access_token :: pyval
  expires_in :: pyval
  expires_time :: "datetime option"
  domain :: string

text \<open>
  \<open>__init__(self, tokens, domain="accounts.zoho", dc="eu")\<close>; a caller that omits
  \<open>domain\<close> or \<open>dc\<close> passes the defaults. The ValueError is raised unless all three
  required keys are in \<open>tokens\<close>.
\<close>

definition ZOAuth2Client :: "dict \<Rightarrow> string \<Rightarrow> string \<Rightarrow> error + client" where
  "ZOAuth2Client tokens domain' dc' =
     (case (map_of tokens ''client_id'', map_of tokens ''client_secret'',
            map_of tokens ''refresh_token'') of
        (Some cid, Some secret, Some rtok) \<Rightarrow>
          Inr \<lparr>
            dc = dc',
            client_id = cid,
            client_secret = secret,
            refresh_token = rtok,
            redirect_uri = ''https://localhost/'',
            access_token =
              (case map_of tokens ''access_token'' of Some t \<Rightarrow> t | None \<Rightarrow> PNone),
            expires_in = PNone,
            expires_time = None,
            domain = ''https://'' @ domain' @ ''.'' @ dc'\<rparr>
      | _ \<Rightarrow> Inl (ValueError ''Client ID, secret and refresh token are all required.''))"

text \<open>
  \<open>authorize_header(self, h={})\<close>: with an argument (\<open>Some h\<close>) the caller's dict gets
  the header and is returned; without one (\<open>None\<close>) the shared default dict gets it, stays
  changed, and is returned.
\<close>

definition authorize_header :: "env \<Rightarrow> client \<Rightarrow> dict option \<Rightarrow> world \<Rightarrow> dict \<times> world" where
  "authorize_header e c arg w =
     (let v = PStr (''Bearer '' @ py_str e (access_token c)) in
      case arg of
        Some h \<Rightarrow> (AList.update ''Authorization'' v h, w)
      | None \<Rightarrow>
          (let h = AList.update ''Authorization'' v (default_h w)
           in (h, w\<lparr>default_h := h\<rparr>)))"

text \<open>
  \<open>has_expired\<close>: \<open>or\<close> evaluates its right operand, and so reads the clock, only when
  the expiry time is known.
\<close>

definition has_expired :: "env \<Rightarrow> client \<Rightarrow> world \<Rightarrow> bool \<times> world" where
  "has_expired e c w =
     (case expires_time c of
        None \<Rightarrow> (True, w)
      | Some t \<Rightarrow> (let (n, w1) = now e w in (n > t, w1)))"

text \<open>The request that \<open>request_new_token\<close> sends.\<close>

definition token_request :: "client \<Rightarrow> request" where
  "token_request c =
     \<lparr>verb = POST,
      url = ''https://accounts.zoho.'' @ dc c @ ''/oauth/v2/token'',
      params = Some
        [(''refresh_token'', refresh_token c),
         (''client_id'', client_id c),
         (''client_secret'', client_secret c),
         (''redirect_uri'', PStr (redirect_uri c)),
         (''grant_type'', PStr ''refresh_token'')],
      headers = None, data = None, files = None\<rparr>"

text \<open>
  \<open>request_new_token\<close> returns the outcome (an exception or the boolean), the client
  and the world as they are at that point: the fields assigned before an exception stay
  assigned. In \<open>datetime.now() + timedelta(seconds=self.expires_in)\<close> the clock is read
  before the timedelta is built.
\<close>

definition request_new_token :: "env \<Rightarrow> client \<Rightarrow> world \<Rightarrow> (error + bool) \<times> client \<times> world" where
  "request_new_token e c w =
     (let (reply, w1) = send e (token_request c) w in
      case reply of
        Inl x \<Rightarrow> (Inl x, c, w1)
      | Inr response \<Rightarrow>
     (case json response of
        Inl x \<Rightarrow> (Inl x, c, w1)
      | Inr json_response \<Rightarrow>
     (case py_in ''access_token'' json_response of
        Inl x \<Rightarrow> (Inl x, c, w1)
      | Inr present \<Rightarrow>
      if \<not> present then (Inr False, c, w1)
      else
     (case py_getitem json_response ''access_token'' of
        Inl x \<Rightarrow> (Inl x, c, w1)
      | Inr tok \<Rightarrow>
      let c1 = c\<lparr>access_token := tok\<rparr> in
     (case py_getitem json_response ''expires_in'' of
        Inl x \<Rightarrow> (Inl x, c1, w1)
      | Inr secs \<Rightarrow>
      let c2 = c1\<lparr>expires_in := secs\<rparr>;
          (n, w2) = now e w1 in
     (case timedelta_seconds (expires_in c2) of
        Inl x \<Rightarrow> (Inl x, c2, w2)
      | Inr delta \<Rightarrow>
     (case datetime_add n delta of
        Inl x \<Rightarrow> (Inl x, c2, w2)
      | Inr t \<Rightarrow> (Inr True, c2\<lparr>expires_time := Some t\<rparr>, w2))))))))"

text \<open>The request that \<open>test_token\<close> sends, with the headers \<open>h\<close> it has built.\<close>

definition probe_request :: "client \<Rightarrow> dict \<Rightarrow> request" where
  "probe_request c h =
     \<lparr>verb = GET,
      url = domain c @ ''.'' @ dc c @ ''/api/v1/users/me'',
      params = None, headers = Some h, data = None, files = None\<rparr>"

definition test_token :: "env \<Rightarrow> client \<Rightarrow> world \<Rightarrow> (error + unit) \<times> client \<times> world" where
  "test_token e c w =
     (let (h, w1) = authorize_header e c None w;
          (reply, w2) = send e (probe_request c h) w1 in
      case reply of
        Inl x \<Rightarrow> (Inl x, c, w2)
      | Inr response \<Rightarrow>
     (case json response of
        Inl x \<Rightarrow> (Inl x, c, w2)
      | Inr j \<Rightarrow>
     (case py_getitem j ''id'' of
        Inl x \<Rightarrow> (Inl x, c, w2)
      | Inr v \<Rightarrow>
      if v = PStr ''F7003'' then
        (case request_new_token e c w2 of
           (Inl x, c3, w3) \<Rightarrow> (Inl x, c3, w3)
         | (Inr b, c3, w3) \<Rightarrow> (Inr (), c3, w3))
      else (Inr (), c, w2))))"

text \<open>
  The request that \<open>query\<close> sends, lines 104 to 109: the three branches of the
  \<open>if\<close>/\<open>elif\<close>/\<open>else\<close> on the lengths of \<open>d\<close> and \<open>file\<close>.
\<close>

definition query_request :: "client \<Rightarrow> string \<Rightarrow> dict \<Rightarrow> dict \<Rightarrow> dict \<Rightarrow> dict \<Rightarrow> request" where
  "query_request c ep p h d file =
     (if length d = 0 \<and> length file = 0 then
        \<lparr>verb = GET, url = domain c @ ep, params = Some p, headers = Some h,
         data = None, files = None\<rparr>
      else if length file = 0 then
        \<lparr>verb = POST, url = domain c @ ep, params = Some p, headers = Some h,
         data = Some d, files = None\<rparr>
      else
        \<lparr>verb = POST, url = domain c @ ep, params = Some p, headers = Some h,
         data = Some d, files = Some file\<rparr>)"

text \<open>Lines 102 to 111 of \<open>query\<close>: build the headers, send, return the parsed body.\<close>

definition query_send ::
  "env \<Rightarrow> client \<Rightarrow> world \<Rightarrow> string \<Rightarrow> dict \<Rightarrow> dict \<Rightarrow> dict \<Rightarrow> (error + pyval) \<times> client \<times> world" where
  "query_send e c w ep p d file =
     (let (h, w1) = authorize_header e c None w;
          (reply, w2) = send e (query_request c ep p h d file) w1 in
      case reply of
        Inl x \<Rightarrow> (Inl x, c, w2)
      | Inr response \<Rightarrow> (json response, c, w2))"

text \<open>
  \<open>query(self, ep, p={}, h={}, d={}, file={})\<close>; a caller that omits a dict passes the
  empty one. The argument \<open>h\<close> is a parameter of the model as it is of the code.
\<close>

definition query ::
  "env \<Rightarrow> client \<Rightarrow> world \<Rightarrow> string \<Rightarrow> dict \<Rightarrow> dict \<Rightarrow> dict \<Rightarrow> dict \<Rightarrow> (error + pyval) \<times> client \<times> world" where
  "query e c w ep p h d file =
     (let (expired, w1) = has_expired e c w in
      if expired \<or> \<not> truthy (access_token c) then
        (case request_new_token e c w1 of
           (Inl x, c2, w2) \<Rightarrow> (Inl x, c2, w2)
         | (Inr ok, c2, w2) \<Rightarrow>
             if \<not> ok
             then (Inl (ValueError ''Could not obtain Client access token from Zoho.''), c2, w2)
             else query_send e c2 w2 ep p d file)
      else query_send e c w1 ep p d file)"

section \<open>Derived notions and sample runs\<close>

text \<open>The condition on line 98 of \<open>query\<close>: the token has expired or is missing.\<close>

definition needs_refresh :: "env \<Rightarrow> client \<Rightarrow> world \<Rightarrow> bool" where
  "needs_refresh e c w = (fst (has_expired e c w) \<or> \<not> truthy (access_token c))"

text \<open>
  The value of \<open>response.json()["id"]\<close> on line 44 of \<open>test_token\<close>, for the reply to
  the probe: an exception when the request, the parsing or the subscript raises.
\<close>

definition reply_id :: "error + response \<Rightarrow> error + pyval" where
  "reply_id reply =
     (case reply of
        Inl x \<Rightarrow> Inl x
      | Inr response \<Rightarrow>
          (case json response of Inl x \<Rightarrow> Inl x | Inr j \<Rightarrow> py_getitem j ''id''))"

text \<open>
  The call of \<open>query\<close> gets past lines 98 to 100: no refresh was needed, or the refresh
  returned True.
\<close>

definition dispatches :: "env \<Rightarrow> client \<Rightarrow> world \<Rightarrow> bool" where
  "dispatches e c w =
     (\<not> needs_refresh e c w
      \<or> fst (request_new_token e c (snd (has_expired e c w))) = Inr True)"

text \<open>The header value that line 76 of \<open>authorize_header\<close> builds.\<close>

definition bearer :: "env \<Rightarrow> client \<Rightarrow> pyval" where
  "bearer e c = PStr (''Bearer '' @ py_str e (access_token c))"


text \<open>
  Sample data for closed instances of the theorems: a WorkDrive client in the EU
  datacentre, and an environment whose server answers the token endpoint with one reply
  and every other URL with another, at a clock fixed in the year 2025.
\<close>

definition tokens0 :: dict where
  "tokens0 =
     [(''client_id'', PStr ''1000.ABC''),
      (''client_secret'', PStr ''s3cr3t''),
      (''refresh_token'', PStr ''1000.refresh'')]"

definition client0 :: client where
  "client0 =
     \<lparr>dc = ''eu'',
      client_id = PStr ''1000.ABC'',
      client_secret = PStr ''s3cr3t'',
      refresh_token = PStr ''1000.refresh'',
      redirect_uri = ''https://localhost/'',
      access_token = PNone,
      expires_in = PNone,
      expires_time = None,
      domain = ''https://workdrive.zoho.eu''\<rparr>"

definition sample_env :: "(error + response) \<Rightarrow> (error + response) \<Rightarrow> env" where
  "sample_env token_reply api_reply =
     \<lparr>server = (\<lambda>rs. if url (last rs) = ''https://accounts.zoho.eu/oauth/v2/token''
                      then token_reply else api_reply),
      clock = (\<lambda>n. 63900000000000000),
      repr = (\<lambda>v. [])\<rparr>"

definition ok_reply :: "pyval \<Rightarrow> error + response" where
  "ok_reply j = Inr \<lparr>status_code = 200, json = Inr j\<rparr>"

definition granted :: "error + response" where
  "granted = ok_reply (PDict [(''access_token'', PStr ''tok''), (''expires_in'', PInt 3600)])"

definition denied :: "error + response" where
  "denied = ok_reply (PDict [(''error'', PStr ''invalid_code'')])"

definition no_expiry :: "error + response" where
  "no_expiry = ok_reply (PDict [(''access_token'', PStr ''tok'')])"

definition not_found :: "error + response" where
  "not_found = Inr \<lparr>status_code = 404, json = Inr (PDict [(''error'', PStr ''not found'')])\<rparr>"

definition rejected :: "error + response" where
  "rejected = ok_reply (PDict [(''id'', PStr ''F7003'')])"

definition user_info :: "error + response" where
  "user_info = ok_reply (PDict [(''id'', PStr ''747938'')])"

section \<open>Properties\<close>

subsection \<open>What each operation does to the world\<close>

lemma send_simps [simp]:
  "fst (send e r w) = server e (sent w @ [r])"
  "sent (snd (send e r w)) = sent w @ [r]"
  "ticks (snd (send e r w)) = ticks w"
  "default_h (snd (send e r w)) = default_h w"
  by (simp_all add: send_def)

lemma has_expired_world [simp]:
  "sent (snd (has_expired e c w)) = sent w"
  "default_h (snd (has_expired e c w)) = default_h w"
  by (simp_all add: has_expired_def now_def split: option.splits)

lemma authorize_header_world [simp]:
  "sent (snd (authorize_header e c arg w)) = sent w"
  "ticks (snd (authorize_header e c arg w)) = ticks w"
  by (simp_all add: authorize_header_def Let_def split: option.splits)

lemma authorize_header_default:
  "authorize_header e c None w =
     (AList.update ''Authorization'' (PStr (''Bearer '' @ py_str e (access_token c))) (default_h w),
      w\<lparr>default_h := AList.update ''Authorization''
           (PStr (''Bearer '' @ py_str e (access_token c))) (default_h w)\<rparr>)"
  by (simp add: authorize_header_def Let_def)

lemma request_new_token_sent [simp]:
  "sent (snd (snd (request_new_token e c w))) = sent w @ [token_request c]"
  by (simp add: request_new_token_def send_def now_def Let_def split: sum.splits prod.splits)

lemma request_new_token_default_h [simp]:
  "default_h (snd (snd (request_new_token e c w))) = default_h w"
  by (simp add: request_new_token_def send_def now_def Let_def split: sum.splits prod.splits)

lemma request_new_token_fixed [simp]:
  "domain (fst (snd (request_new_token e c w))) = domain c"
  "dc (fst (snd (request_new_token e c w))) = dc c"
  by (simp_all add: request_new_token_def send_def now_def Let_def split: sum.splits prod.splits)

text \<open>The refresh on a reply whose JSON is an object, branch by branch.\<close>

lemma request_new_token_object:
  assumes "server e (sent w @ [token_request c]) = Inr r" and "json r = Inr (PDict d)"
  shows "request_new_token e c w =
     (let w1 = w\<lparr>sent := sent w @ [token_request c]\<rparr> in
      case map_of d ''access_token'' of
        None \<Rightarrow> (Inr False, c, w1)
      | Some tok \<Rightarrow>
          (case map_of d ''expires_in'' of
             None \<Rightarrow> (Inl (KeyError ''expires_in''), c\<lparr>access_token := tok\<rparr>, w1)
           | Some secs \<Rightarrow>
               (let c2 = c\<lparr>access_token := tok, expires_in := secs\<rparr>;
                    w2 = w1\<lparr>ticks := Suc (ticks w)\<rparr> in
                case timedelta_seconds secs of
                  Inl x \<Rightarrow> (Inl x, c2, w2)
                | Inr delta \<Rightarrow>
                    (case datetime_add (clock e (ticks w)) delta of
                       Inl x \<Rightarrow> (Inl x, c2, w2)
                     | Inr t \<Rightarrow> (Inr True, c2\<lparr>expires_time := Some t\<rparr>, w2)))))"
  using assms
  by (simp add: request_new_token_def send_def now_def Let_def split: sum.splits option.splits)

lemma request_new_token_True_present:
  assumes "fst (request_new_token e c w) = Inr True"
  shows "\<exists>r j. server e (sent w @ [token_request c]) = Inr r \<and> json r = Inr j
           \<and> py_in ''access_token'' j = Inr True"
  using assms
  by (auto simp add: request_new_token_def send_def now_def Let_def
      split: sum.splits prod.splits if_splits)

text \<open>
  Nothing is assigned before line 64: unless the reply has a JSON body in which line 63
  finds \<open>access_token\<close>, the client is left as it was, whether the call returns False
  or raises.
\<close>

lemma request_new_token_unchanged:
  assumes "\<And>r j. server e (sent w @ [token_request c]) = Inr r \<Longrightarrow> json r = Inr j
             \<Longrightarrow> py_in ''access_token'' j \<noteq> Inr True"
  shows "fst (snd (request_new_token e c w)) = c"
proof (cases "server e (sent w @ [token_request c])")
  case (Inl x)
  then show ?thesis by (simp add: request_new_token_def send_def)
next
  case (Inr r)
  show ?thesis
  proof (cases "json r")
    case (Inl x)
    then show ?thesis using Inr by (simp add: request_new_token_def send_def)
  next
    case j: (Inr j)
    have "py_in ''access_token'' j \<noteq> Inr True"
      using assms Inr j by simp
    then show ?thesis
      using Inr j by (cases "py_in ''access_token'' j") (simp_all add: request_new_token_def send_def)
  qed
qed

text \<open>
  An integer number of seconds that leads from one datetime to another is within the
  range of timedelta.
\<close>

lemma datetime_in_range:
  assumes "0 \<le> t" "t \<le> datetime_max" "0 \<le> t + n * 1000000" "t + n * 1000000 \<le> datetime_max"
  shows "timedelta_seconds (PInt n) = Inr (n * 1000000)"
    and "datetime_add t (n * 1000000) = Inr (t + n * 1000000)"
proof -
  have lo: "- 315537897599 \<le> n" and hi: "n \<le> 315537897599"
    using assms by (simp_all add: datetime_max_def)
  have "(- 315537897599) div 86400 \<le> n div 86400"
    using lo by (rule zdiv_mono1) simp
  moreover have "n div 86400 \<le> 315537897599 div 86400"
    using hi by (rule zdiv_mono1) simp
  ultimately have "- 999999999 \<le> n div 86400" "n div 86400 \<le> 999999999"
    by simp_all
  then show "timedelta_seconds (PInt n) = Inr (n * 1000000)" by simp
  show "datetime_add t (n * 1000000) = Inr (t + n * 1000000)"
    using assms by (simp add: datetime_add_def)
qed

lemma query_send_eq:
  "query_send e c w ep p d file =
     (let h = AList.update ''Authorization'' (PStr (''Bearer '' @ py_str e (access_token c)))
                (default_h w);
          r = query_request c ep p h d file
      in (case server e (sent w @ [r]) of Inl x \<Rightarrow> Inl x | Inr response \<Rightarrow> json response,
          c, w\<lparr>default_h := h, sent := sent w @ [r]\<rparr>))"
  by (simp add: query_send_def authorize_header_default send_def Let_def split: sum.splits)

lemma query_fresh:
  "\<not> needs_refresh e c w \<Longrightarrow>
     query e c w ep p h d file = query_send e c (snd (has_expired e c w)) ep p d file"
  by (simp add: query_def needs_refresh_def case_prod_beta)

lemma query_refresh:
  "needs_refresh e c w \<Longrightarrow>
     query e c w ep p h d file =
       (case request_new_token e c (snd (has_expired e c w)) of
          (Inl x, c2, w2) \<Rightarrow> (Inl x, c2, w2)
        | (Inr ok, c2, w2) \<Rightarrow>
            if ok then query_send e c2 w2 ep p d file
            else (Inl (ValueError ''Could not obtain Client access token from Zoho.''), c2, w2))"
  by (auto simp add: query_def needs_refresh_def split: prod.splits sum.splits)

lemma ZOAuth2Client_sample: "ZOAuth2Client tokens0 ''workdrive.zoho'' ''eu'' = Inr client0"
  by (simp add: ZOAuth2Client_def tokens0_def client0_def)


subsection \<open>Expiry check\<close>

text \<open>
  C4. \<open>has_expired\<close> returns True when the stored expiry time is None; otherwise it
  returns True exactly when the clock reading taken by the call is later than the stored
  expiry time.
\<close>

theorem has_expired_compares_clock:
  "fst (has_expired e c w) =
     (case expires_time c of None \<Rightarrow> True | Some t \<Rightarrow> clock e (ticks w) > t)"
  by (simp add: has_expired_def now_def split: option.splits)

subsection \<open>Token refresh\<close>

text \<open>
  C9. When the JSON of the reply to the refresh request is an object without an
  \<open>access_token\<close> field, \<open>request_new_token\<close> returns False and leaves the client as it
  was: every field, so \<open>access_token\<close>, \<open>expires_in\<close> and \<open>expires_time\<close> among them.
\<close>

theorem request_new_token_failure_atomic:
  assumes "server e (sent w @ [token_request c]) = Inr r"
    and "json r = Inr (PDict d)"
    and "map_of d ''access_token'' = None"
  shows "fst (request_new_token e c w) = Inr False
       \<and> fst (snd (request_new_token e c w)) = c"
  using assms by (simp add: request_new_token_object)

theorem request_new_token_failure_atomic_witness:
  "server (sample_env denied not_found) (sent world0 @ [token_request client0])
     = Inr \<lparr>status_code = 200, json = Inr (PDict [(''error'', PStr ''invalid_code'')])\<rparr>
   \<and> map_of [(''error'', PStr ''invalid_code'')] ''access_token'' = None
   \<and> fst (request_new_token (sample_env denied not_found) client0 world0) = Inr False
   \<and> fst (snd (request_new_token (sample_env denied not_found) client0 world0)) = client0"
  using request_new_token_failure_atomic
    [of "sample_env denied not_found" world0 client0
        "\<lparr>status_code = 200, json = Inr (PDict [(''error'', PStr ''invalid_code'')])\<rparr>"
        "[(''error'', PStr ''invalid_code'')]"]
  by (simp add: sample_env_def denied_def ok_reply_def token_request_def client0_def world0_def)

text \<open>
  A reply whose JSON object has an \<open>access_token\<close> field and no \<open>expires_in\<close> field:
  the subscript on line 65 raises KeyError after line 64 has stored the token, so the
  call does not return True although the field is there.
\<close>

theorem request_new_token_no_expiry_counterexample:
  "server (sample_env no_expiry not_found) (sent world0 @ [token_request client0])
     = ok_reply (PDict [(''access_token'', PStr ''tok'')])
   \<and> py_in ''access_token'' (PDict [(''access_token'', PStr ''tok'')]) = Inr True
   \<and> request_new_token (sample_env no_expiry not_found) client0 world0
     = (Inl (KeyError ''expires_in''), client0\<lparr>access_token := PStr ''tok''\<rparr>,
        world0\<lparr>sent := [token_request client0]\<rparr>)"
  by (simp add: request_new_token_def send_def sample_env_def no_expiry_def ok_reply_def
      token_request_def client0_def world0_def)

text \<open>
  C5, amended. \<open>request_new_token\<close> sends one POST to
  \<open>https://accounts.zoho.<dc>/oauth/v2/token\<close> with the stored refresh token, the client
  credentials and \<open>grant_type\<close> \<open>refresh_token\<close> as parameters. When the reply's JSON is
  an object: it returns False if the object has no \<open>access_token\<close> field, it returns True
  only if the object has one, and it does return True, having stored the new access token
  and the expiry time (the clock reading plus \<open>expires_in\<close> seconds), if the object has an
  \<open>access_token\<close> field and an integer \<open>expires_in\<close> field with which that expiry time is a
  datetime.
\<close>

theorem request_new_token_result:
  assumes "server e (sent w @ [token_request c]) = Inr r"
    and "json r = Inr (PDict d)"
  shows "verb (token_request c) = POST
     \<and> url (token_request c) = ''https://accounts.zoho.'' @ dc c @ ''/oauth/v2/token''
     \<and> params (token_request c) = Some
          [(''refresh_token'', refresh_token c), (''client_id'', client_id c),
           (''client_secret'', client_secret c), (''redirect_uri'', PStr (redirect_uri c)),
           (''grant_type'', PStr ''refresh_token'')]
     \<and> sent (snd (snd (request_new_token e c w))) = sent w @ [token_request c]
     \<and> (map_of d ''access_token'' = None \<longrightarrow> fst (request_new_token e c w) = Inr False)
     \<and> (fst (request_new_token e c w) = Inr True \<longrightarrow> map_of d ''access_token'' \<noteq> None)
     \<and> (\<forall>tok n. map_of d ''access_token'' = Some tok \<and> map_of d ''expires_in'' = Some (PInt n)
           \<and> 0 \<le> clock e (ticks w) \<and> clock e (ticks w) \<le> datetime_max
           \<and> 0 \<le> clock e (ticks w) + n * 1000000
           \<and> clock e (ticks w) + n * 1000000 \<le> datetime_max
         \<longrightarrow> fst (request_new_token e c w) = Inr True
           \<and> access_token (fst (snd (request_new_token e c w))) = tok
           \<and> expires_in (fst (snd (request_new_token e c w))) = PInt n
           \<and> expires_time (fst (snd (request_new_token e c w)))
               = Some (clock e (ticks w) + n * 1000000))"
proof -
  have req: "verb (token_request c) = POST"
    "url (token_request c) = ''https://accounts.zoho.'' @ dc c @ ''/oauth/v2/token''"
    "params (token_request c) = Some
          [(''refresh_token'', refresh_token c), (''client_id'', client_id c),
           (''client_secret'', client_secret c), (''redirect_uri'', PStr (redirect_uri c)),
           (''grant_type'', PStr ''refresh_token'')]"
    by (simp_all add: token_request_def)
  have absent: "map_of d ''access_token'' = None \<longrightarrow> fst (request_new_token e c w) = Inr False"
    using assms by (simp add: request_new_token_object)
  have only: "fst (request_new_token e c w) = Inr True \<longrightarrow> map_of d ''access_token'' \<noteq> None"
    using absent by auto
  have stored: "fst (request_new_token e c w) = Inr True
           \<and> access_token (fst (snd (request_new_token e c w))) = tok
           \<and> expires_in (fst (snd (request_new_token e c w))) = PInt n
           \<and> expires_time (fst (snd (request_new_token e c w)))
               = Some (clock e (ticks w) + n * 1000000)"
    if "map_of d ''access_token'' = Some tok" "map_of d ''expires_in'' = Some (PInt n)"
      "0 \<le> clock e (ticks w)" "clock e (ticks w) \<le> datetime_max"
      "0 \<le> clock e (ticks w) + n * 1000000"
      "clock e (ticks w) + n * 1000000 \<le> datetime_max" for tok n
  proof -
    have "timedelta_seconds (PInt n) = Inr (n * 1000000)"
      "datetime_add (clock e (ticks w)) (n * 1000000) = Inr (clock e (ticks w) + n * 1000000)"
      using that(3-6) by (rule datetime_in_range)+
    then show ?thesis
      using that(1,2) by (simp add: request_new_token_object [OF assms] Let_def)
  qed
  show ?thesis
    using req absent only stored by (simp only: request_new_token_sent) blast
qed

theorem request_new_token_result_witness:
  "server (sample_env granted not_found) (sent world0 @ [token_request client0])
     = Inr \<lparr>status_code = 200,
            json = Inr (PDict [(''access_token'', PStr ''tok''), (''expires_in'', PInt 3600)])\<rparr>
   \<and> 0 \<le> clock (sample_env granted not_found) (ticks world0)
   \<and> clock (sample_env granted not_found) (ticks world0) + 3600 * 1000000 \<le> datetime_max
   \<and> fst (request_new_token (sample_env granted not_found) client0 world0) = Inr True
   \<and> access_token (fst (snd (request_new_token (sample_env granted not_found) client0 world0)))
       = PStr ''tok''
   \<and> expires_time (fst (snd (request_new_token (sample_env granted not_found) client0 world0)))
       = Some (63900000000000000 + 3600 * 1000000)
   \<and> fst (request_new_token (sample_env denied not_found) client0 world0) = Inr False"
  using request_new_token_result
    [of "sample_env granted not_found" world0 client0
        "\<lparr>status_code = 200,
          json = Inr (PDict [(''access_token'', PStr ''tok''), (''expires_in'', PInt 3600)])\<rparr>"
        "[(''access_token'', PStr ''tok''), (''expires_in'', PInt 3600)]"]
    request_new_token_result
    [of "sample_env denied not_found" world0 client0
        "\<lparr>status_code = 200, json = Inr (PDict [(''error'', PStr ''invalid_code'')])\<rparr>"
        "[(''error'', PStr ''invalid_code'')]"]
  by (simp add: sample_env_def granted_def denied_def ok_reply_def token_request_def
      client0_def world0_def datetime_max_def)

subsection \<open>Query\<close>

text \<open>The four ways through \<open>query\<close>.\<close>

lemma query_cases:
  obtains
    (fresh) "\<not> needs_refresh e c w" "dispatches e c w"
      "query e c w ep p h d file = query_send e c (snd (has_expired e c w)) ep p d file"
  | (refreshed) c2 w2 where "needs_refresh e c w" "dispatches e c w"
      "request_new_token e c (snd (has_expired e c w)) = (Inr True, c2, w2)"
      "query e c w ep p h d file = query_send e c2 w2 ep p d file"
  | (refused) c2 w2 where "needs_refresh e c w" "\<not> dispatches e c w"
      "request_new_token e c (snd (has_expired e c w)) = (Inr False, c2, w2)"
      "query e c w ep p h d file =
         (Inl (ValueError ''Could not obtain Client access token from Zoho.''), c2, w2)"
  | (raised) x c2 w2 where "needs_refresh e c w" "\<not> dispatches e c w"
      "request_new_token e c (snd (has_expired e c w)) = (Inl x, c2, w2)"
      "query e c w ep p h d file = (Inl x, c2, w2)"
proof (cases "needs_refresh e c w")
  case False
  then show ?thesis
    using fresh by (simp add: query_fresh dispatches_def)
next
  case True
  obtain out c2 w2 where r: "request_new_token e c (snd (has_expired e c w)) = (out, c2, w2)"
    by (cases "request_new_token e c (snd (has_expired e c w))") auto
  show ?thesis
  proof (cases out)
    case (Inl x)
    then show ?thesis
      using True r raised by (simp add: query_refresh dispatches_def)
  next
    case (Inr b)
    then show ?thesis
      using True r refreshed refused by (cases b) (simp_all add: query_refresh dispatches_def)
  qed
qed

lemma query_send_sent:
  "sent (snd (snd (query_send e c w ep p d file)))
     = sent w @ [query_request c ep p (AList.update ''Authorization'' (bearer e c) (default_h w)) d file]"
  by (simp add: query_send_eq Let_def bearer_def)

lemma query_send_client: "fst (snd (query_send e c w ep p d file)) = c"
  by (simp add: query_send_eq Let_def)

lemma query_send_outcome:
  "fst (query_send e c w ep p d file)
     = (case server e (sent (snd (snd (query_send e c w ep p d file)))) of
          Inl x \<Rightarrow> Inl x | Inr response \<Rightarrow> json response)"
  by (simp add: query_send_eq Let_def)


text \<open>The requests of one call of query.\<close>

lemma query_sent:
  "sent (snd (snd (query e c w ep p h d file))) =
     sent w
     @ (if needs_refresh e c w then [token_request c] else [])
     @ (if dispatches e c w
        then [query_request (fst (snd (query e c w ep p h d file))) ep p
                (AList.update ''Authorization''
                   (bearer e (fst (snd (query e c w ep p h d file)))) (default_h w)) d file]
        else [])"
proof (cases rule: query_cases [of e c w ep p h d "file"])
  case fresh
  then show ?thesis by (simp add: query_send_sent query_send_client)
next
  case (refreshed c2 w2)
  have "sent w2 = sent w @ [token_request c]" "default_h w2 = default_h w"
    using request_new_token_sent [of e c "snd (has_expired e c w)"]
      request_new_token_default_h [of e c "snd (has_expired e c w)"]
    by (simp_all add: refreshed(3))
  then show ?thesis
    using refreshed by (simp add: query_send_sent query_send_client)
next
  case (refused c2 w2)
  have "sent w2 = sent w @ [token_request c]"
    using request_new_token_sent [of e c "snd (has_expired e c w)"]
    by (simp add: refused(3))
  then show ?thesis using refused by simp
next
  case (raised x c2 w2)
  have "sent w2 = sent w @ [token_request c]"
    using request_new_token_sent [of e c "snd (has_expired e c w)"]
    by (simp add: raised(3))
  then show ?thesis using raised by simp
qed

lemma query_fixed:
  "domain (fst (snd (query e c w ep p h d file))) = domain c"
  "dc (fst (snd (query e c w ep p h d file))) = dc c"
proof -
  show "domain (fst (snd (query e c w ep p h d file))) = domain c"
  proof (cases rule: query_cases [of e c w ep p h d "file"])
    case fresh then show ?thesis by (simp add: query_send_client)
  next
    case (refreshed c2 w2)
    then show ?thesis
      using request_new_token_fixed(1) [of e c "snd (has_expired e c w)"]
      by (simp add: query_send_client)
  next
    case (refused c2 w2)
    then show ?thesis
      using request_new_token_fixed(1) [of e c "snd (has_expired e c w)"] by simp
  next
    case (raised x c2 w2)
    then show ?thesis
      using request_new_token_fixed(1) [of e c "snd (has_expired e c w)"] by simp
  qed
  show "dc (fst (snd (query e c w ep p h d file))) = dc c"
  proof (cases rule: query_cases [of e c w ep p h d "file"])
    case fresh then show ?thesis by (simp add: query_send_client)
  next
    case (refreshed c2 w2)
    then show ?thesis
      using request_new_token_fixed(2) [of e c "snd (has_expired e c w)"]
      by (simp add: query_send_client)
  next
    case (refused c2 w2)
    then show ?thesis
      using request_new_token_fixed(2) [of e c "snd (has_expired e c w)"] by simp
  next
    case (raised x c2 w2)
    then show ?thesis
      using request_new_token_fixed(2) [of e c "snd (has_expired e c w)"] by simp
  qed
qed


lemma token_request_neq_query_request: "token_request c \<noteq> query_request c' ep p hs d file"
proof
  assume "token_request c = query_request c' ep p hs d file"
  then have "headers (token_request c) = headers (query_request c' ep p hs d file)" by simp
  then show False by (simp add: token_request_def query_request_def split: if_splits)
qed

lemma query_new_requests:
  assumes "r \<in> set (drop (length (sent w)) (sent (snd (snd (query e c w ep p h d file)))))"
    and "r \<noteq> token_request c"
  shows "dispatches e c w \<and>
     r = query_request (fst (snd (query e c w ep p h d file))) ep p
                (AList.update ''Authorization''
                   (bearer e (fst (snd (query e c w ep p h d file)))) (default_h w)) d file"
  using assms by (subst (asm) query_sent) (auto split: if_splits)


text \<open>
  A call of \<open>query\<close> with no stored expiry, so that the refresh is needed, and a reply to
  the refresh whose JSON object has an \<open>access_token\<close> field and no \<open>expires_in\<close> field:
  the KeyError of \<open>request_new_token\<close> passes through \<open>query\<close>, which neither raises
  the ValueError nor returns a parsed body.
\<close>

theorem query_refresh_raises_counterexample:
  "needs_refresh (sample_env no_expiry not_found) client0 world0
   \<and> fst (query (sample_env no_expiry not_found) client0 world0 ''/api/v1/files'' [] [] [] [])
       = Inl (KeyError ''expires_in'')"
  by (simp add: query_def has_expired_def needs_refresh_def request_new_token_def send_def
      sample_env_def no_expiry_def ok_reply_def token_request_def client0_def world0_def)

text \<open>
  C1, amended. If the stored token has expired or is missing and \<open>request_new_token\<close>
  returns False, \<open>query\<close> raises the ValueError. If no refresh is needed, or
  \<open>request_new_token\<close> returns True, \<open>query\<close> yields what \<open>response.json()\<close> yields
  for the reply to the last request it sent (the parsed body; an exception if the request
  or the parsing raised), whatever the status code of the response.
\<close>

theorem query_outcome:
  "(needs_refresh e c w
      \<and> fst (request_new_token e c (snd (has_expired e c w))) = Inr False
    \<longrightarrow> fst (query e c w ep p h d file)
          = Inl (ValueError ''Could not obtain Client access token from Zoho.''))
   \<and> (\<not> needs_refresh e c w
       \<or> fst (request_new_token e c (snd (has_expired e c w))) = Inr True
    \<longrightarrow> fst (query e c w ep p h d file)
          = (case server e (sent (snd (snd (query e c w ep p h d file)))) of
               Inl x \<Rightarrow> Inl x
             | Inr response \<Rightarrow> json response))"
proof (cases rule: query_cases [of e c w ep p h d "file"])
  case fresh
  then show ?thesis by (simp add: query_send_outcome)
next
  case (refreshed c2 w2)
  then show ?thesis by (simp add: query_send_outcome)
next
  case (refused c2 w2)
  then show ?thesis by simp
next
  case (raised x c2 w2)
  then show ?thesis by simp
qed

theorem query_outcome_witness:
  "needs_refresh (sample_env denied not_found) client0 world0
   \<and> fst (request_new_token (sample_env denied not_found) client0
             (snd (has_expired (sample_env denied not_found) client0 world0))) = Inr False
   \<and> fst (request_new_token (sample_env granted not_found) client0
             (snd (has_expired (sample_env granted not_found) client0 world0))) = Inr True
   \<and> fst (query (sample_env denied not_found) client0 world0 ''/api/v1/files'' [] [] [] [])
     = Inl (ValueError ''Could not obtain Client access token from Zoho.'')
   \<and> fst (query (sample_env granted not_found) client0 world0 ''/api/v1/files'' [] [] [] [])
     = Inr (PDict [(''error'', PStr ''not found'')])"
proof -
  have refused: "needs_refresh (sample_env denied not_found) client0 world0
      \<and> fst (request_new_token (sample_env denied not_found) client0
               (snd (has_expired (sample_env denied not_found) client0 world0))) = Inr False"
    by (simp add: needs_refresh_def has_expired_def request_new_token_def send_def
        sample_env_def denied_def ok_reply_def token_request_def client0_def world0_def)
  have granted: "fst (request_new_token (sample_env granted not_found) client0
               (snd (has_expired (sample_env granted not_found) client0 world0))) = Inr True"
    by (simp add: has_expired_def request_new_token_def send_def now_def datetime_add_def
        datetime_max_def sample_env_def granted_def ok_reply_def token_request_def
        client0_def world0_def)
  have reply: "server (sample_env granted not_found)
        (sent (snd (snd (query (sample_env granted not_found) client0 world0
                           ''/api/v1/files'' [] [] [] []))))
      = not_found"
    by (simp add: query_def query_send_def authorize_header_def query_request_def
        has_expired_def request_new_token_def send_def now_def datetime_add_def
        datetime_max_def sample_env_def granted_def not_found_def ok_reply_def
        token_request_def client0_def world0_def Let_def)
  show ?thesis
    using refused granted reply
      query_outcome [of "sample_env denied not_found" client0 world0 "''/api/v1/files''" "[]" "[]" "[]" "[]"]
      query_outcome [of "sample_env granted not_found" client0 world0 "''/api/v1/files''" "[]" "[]" "[]" "[]"]
    by (simp add: not_found_def)
qed

text \<open>
  C2. When \<open>query\<close> gets to send its request (no refresh was needed, or the refresh
  returned True), that request is the last one sent, after nothing but the refresh request
  if there was one, and its method follows the arguments: GET without body or files when
  \<open>d\<close> and \<open>file\<close> are both empty, POST with body \<open>d\<close> and without files when \<open>d\<close>
  is not empty and \<open>file\<close> is, POST with body \<open>d\<close> and files \<open>file\<close> when \<open>file\<close> is
  not empty.
\<close>

theorem query_method:
  assumes "\<not> needs_refresh e c w
       \<or> fst (request_new_token e c (snd (has_expired e c w))) = Inr True"
  shows "butlast (sent (snd (snd (query e c w ep p h d file))))
           = sent w @ (if needs_refresh e c w then [token_request c] else [])
     \<and> (d = [] \<and> file = [] \<longrightarrow>
          verb (last (sent (snd (snd (query e c w ep p h d file))))) = GET
        \<and> data (last (sent (snd (snd (query e c w ep p h d file))))) = None
        \<and> files (last (sent (snd (snd (query e c w ep p h d file))))) = None)
     \<and> (d \<noteq> [] \<and> file = [] \<longrightarrow>
          verb (last (sent (snd (snd (query e c w ep p h d file))))) = POST
        \<and> data (last (sent (snd (snd (query e c w ep p h d file))))) = Some d
        \<and> files (last (sent (snd (snd (query e c w ep p h d file))))) = None)
     \<and> (file \<noteq> [] \<longrightarrow>
          verb (last (sent (snd (snd (query e c w ep p h d file))))) = POST
        \<and> data (last (sent (snd (snd (query e c w ep p h d file))))) = Some d
        \<and> files (last (sent (snd (snd (query e c w ep p h d file))))) = Some file)"
proof -
  have "dispatches e c w"
    using assms by (simp add: dispatches_def)
  then obtain c' hs pre where
    s: "sent (snd (snd (query e c w ep p h d file))) = pre @ [query_request c' ep p hs d file]"
    and pre: "pre = sent w @ (if needs_refresh e c w then [token_request c] else [])"
    using query_sent [of e c w ep p h d "file"] by simp
  have b: "butlast (sent (snd (snd (query e c w ep p h d file)))) = pre"
    and l: "last (sent (snd (snd (query e c w ep p h d file)))) = query_request c' ep p hs d file"
    by (simp_all add: s)
  show ?thesis
    unfolding b l by (simp add: pre query_request_def)
qed

theorem query_method_witness:
  "fst (request_new_token (sample_env granted not_found) client0
          (snd (has_expired (sample_env granted not_found) client0 world0))) = Inr True
   \<and> verb (last (sent (snd (snd (query (sample_env granted not_found) client0 world0
           ''/api/v1/files'' [] [] [] []))))) = GET
   \<and> verb (last (sent (snd (snd (query (sample_env granted not_found) client0 world0
           ''/api/v1/files'' [] [] [(''name'', PStr ''a'')] []))))) = POST
   \<and> files (last (sent (snd (snd (query (sample_env granted not_found) client0 world0
           ''/api/v1/files'' [] [] [(''name'', PStr ''a'')] []))))) = None
   \<and> files (last (sent (snd (snd (query (sample_env granted not_found) client0 world0
           ''/api/v1/upload'' [] [] [] [(''content'', PStr ''bytes'')])))))
       = Some [(''content'', PStr ''bytes'')]"
proof -
  have granted: "fst (request_new_token (sample_env granted not_found) client0
               (snd (has_expired (sample_env granted not_found) client0 world0))) = Inr True"
    by (simp add: has_expired_def request_new_token_def send_def now_def datetime_add_def
        datetime_max_def sample_env_def granted_def ok_reply_def token_request_def
        client0_def world0_def)
  show ?thesis
    using granted
      query_method [of "sample_env granted not_found" client0 world0 "''/api/v1/files''" "[]" "[]" "[]" "[]"]
      query_method [of "sample_env granted not_found" client0 world0 "''/api/v1/files''" "[]" "[]" "[(''name'', PStr ''a'')]" "[]"]
      query_method [of "sample_env granted not_found" client0 world0 "''/api/v1/upload''" "[]" "[]" "[]" "[(''content'', PStr ''bytes'')]"]
    by simp
qed

text \<open>What the constructor stores for the datacentre and the API domain.\<close>

lemma ZOAuth2Client_fields:
  assumes "ZOAuth2Client tokens name dcx = Inr c"
  shows "domain c = ''https://'' @ name @ ''.'' @ dcx" and "dc c = dcx"
  using assms by (auto simp add: ZOAuth2Client_def split: option.splits)

text \<open>
  C3. Among the requests that a call of \<open>query\<close> sends, the refresh request of
  \<open>request_new_token\<close> occurs if and only if, at the call, the stored token has expired
  (\<open>has_expired\<close>) or is missing (\<open>not self.access_token\<close>). When a token that has not
  expired is present, the call sends exactly one request, the query itself, and leaves the
  client as it was.
\<close>

theorem query_refreshes_iff_needed:
  "(token_request c \<in> set (drop (length (sent w)) (sent (snd (snd (query e c w ep p h d file))))))
     = (fst (has_expired e c w) \<or> \<not> truthy (access_token c))
   \<and> (\<not> (fst (has_expired e c w) \<or> \<not> truthy (access_token c)) \<longrightarrow>
        drop (length (sent w)) (sent (snd (snd (query e c w ep p h d file))))
          = [query_request c ep p (AList.update ''Authorization'' (bearer e c) (default_h w)) d file]
        \<and> fst (snd (query e c w ep p h d file)) = c)"
proof (cases "needs_refresh e c w")
  case True
  then show ?thesis
    by (simp add: query_sent [of e c w ep p h d "file"] needs_refresh_def)
next
  case False
  then have eq: "query e c w ep p h d file = query_send e c (snd (has_expired e c w)) ep p d file"
    by (rule query_fresh)
  have "dispatches e c w" using False by (simp add: dispatches_def)
  then show ?thesis
    using False token_request_neq_query_request [of c c ep p _ d "file"]
    by (simp add: query_sent [of e c w ep p h d "file"] needs_refresh_def)
       (simp add: eq query_send_client)
qed

theorem query_refreshes_iff_needed_witness:
  "token_request client0 \<in> set (drop (length (sent world0))
      (sent (snd (snd (query (sample_env granted not_found) client0 world0
                        ''/api/v1/files'' [] [] [] [])))))
   \<and> token_request (client0\<lparr>access_token := PStr ''tok'', expires_time := Some 63900003600000000\<rparr>)
      \<notin> set (drop (length (sent world0))
      (sent (snd (snd (query (sample_env granted not_found)
                        (client0\<lparr>access_token := PStr ''tok'', expires_time := Some 63900003600000000\<rparr>)
                        world0 ''/api/v1/files'' [] [] [] [])))))"
  using query_refreshes_iff_needed [of client0 world0 "sample_env granted not_found"
          "''/api/v1/files''" "[]" "[]" "[]" "[]"]
    query_refreshes_iff_needed
      [of "client0\<lparr>access_token := PStr ''tok'', expires_time := Some 63900003600000000\<rparr>"
          world0 "sample_env granted not_found" "''/api/v1/files''" "[]" "[]" "[]" "[]"]
  by (simp add: has_expired_def now_def sample_env_def client0_def world0_def
      token_request_neq_query_request)

text \<open>
  C6. For a client whose \<open>domain\<close> is the one its constructor built from \<open>domain\<close> and
  \<open>dc\<close>, every request that a call of \<open>query\<close> sends, the refresh request of
  \<open>request_new_token\<close> apart, has the URL \<open>https://<domain>.<dc>\<close> followed by the
  endpoint, and an \<open>Authorization\<close> header \<open>Bearer <access_token>\<close> with the access
  token the client holds when the request goes out.
\<close>

theorem query_request_target:
  assumes "ZOAuth2Client tokens name dcx = Inr c0"
    and "domain c = domain c0"
    and "r \<in> set (drop (length (sent w)) (sent (snd (snd (query e c w ep p h d file)))))"
    and "r \<noteq> token_request c"
  shows "url r = ''https://'' @ name @ ''.'' @ dcx @ ep
       \<and> (\<exists>hs. headers r = Some hs
             \<and> map_of hs ''Authorization''
                 = Some (PStr (''Bearer ''
                      @ py_str e (access_token (fst (snd (query e c w ep p h d file)))))))"
proof -
  have r: "r = query_request (fst (snd (query e c w ep p h d file))) ep p
                (AList.update ''Authorization''
                   (bearer e (fst (snd (query e c w ep p h d file)))) (default_h w)) d file"
    using query_new_requests [OF assms(3,4)] by simp
  have "url r = domain c @ ep"
    by (subst r) (simp add: query_request_def query_fixed)
  moreover have "\<exists>hs. headers r = Some hs
             \<and> map_of hs ''Authorization''
                 = Some (PStr (''Bearer ''
                      @ py_str e (access_token (fst (snd (query e c w ep p h d file))))))"
    by (subst r) (simp add: query_request_def update_conv' bearer_def)
  ultimately show ?thesis
    using ZOAuth2Client_fields(1) [OF assms(1)] assms(2) by simp
qed

theorem query_request_target_witness:
  "ZOAuth2Client tokens0 ''workdrive.zoho'' ''eu'' = Inr client0
   \<and> last (sent (snd (snd (query (sample_env granted not_found) client0 world0
           ''/api/v1/files'' [] [] [] []))))
       \<in> set (drop (length (sent world0))
               (sent (snd (snd (query (sample_env granted not_found) client0 world0
                  ''/api/v1/files'' [] [] [] [])))))
   \<and> last (sent (snd (snd (query (sample_env granted not_found) client0 world0
           ''/api/v1/files'' [] [] [] [])))) \<noteq> token_request client0
   \<and> url (last (sent (snd (snd (query (sample_env granted not_found) client0 world0
           ''/api/v1/files'' [] [] [] []))))) = ''https://workdrive.zoho.eu/api/v1/files''
   \<and> (\<exists>hs. headers (last (sent (snd (snd (query (sample_env granted not_found) client0 world0
           ''/api/v1/files'' [] [] [] []))))) = Some hs
         \<and> map_of hs ''Authorization'' = Some (PStr ''Bearer tok''))"
proof -
  have run: "query (sample_env granted not_found) client0 world0 ''/api/v1/files'' [] [] [] []
      = (Inr (PDict [(''error'', PStr ''not found'')]),
         client0\<lparr>access_token := PStr ''tok'', expires_in := PInt 3600,
                 expires_time := Some 63900003600000000\<rparr>,
         \<lparr>sent = [token_request client0,
                  \<lparr>verb = GET, url = ''https://workdrive.zoho.eu/api/v1/files'',
                   params = Some [], headers = Some [(''Authorization'', PStr ''Bearer tok'')],
                   data = None, files = None\<rparr>],
          ticks = 1,
          default_h = [(''Authorization'', PStr ''Bearer tok'')]\<rparr>)"
    by (simp add: query_def query_send_def authorize_header_def query_request_def
        has_expired_def request_new_token_def send_def now_def datetime_add_def
        datetime_max_def sample_env_def granted_def not_found_def ok_reply_def
        token_request_def client0_def world0_def Let_def)
  have neq: "\<lparr>verb = GET, url = ''https://workdrive.zoho.eu/api/v1/files'',
                   params = Some [], headers = Some [(''Authorization'', PStr ''Bearer tok'')],
                   data = None, files = None\<rparr> \<noteq> token_request client0"
    by (simp add: token_request_def)
  show ?thesis
    using query_request_target [OF ZOAuth2Client_sample, of client0
        "\<lparr>verb = GET, url = ''https://workdrive.zoho.eu/api/v1/files'',
                   params = Some [], headers = Some [(''Authorization'', PStr ''Bearer tok'')],
                   data = None, files = None\<rparr>"
        world0 "sample_env granted not_found" "''/api/v1/files''" "[]" "[]" "[]" "[]"] neq
      ZOAuth2Client_sample
    by (simp add: run) (simp add: world0_def)
qed

subsection \<open>Token probe\<close>

lemma test_token_eq:
  "test_token e c w =
     (let hs = AList.update ''Authorization'' (bearer e c) (default_h w);
          w2 = w\<lparr>default_h := hs, sent := sent w @ [probe_request c hs]\<rparr> in
      case reply_id (server e (sent w @ [probe_request c hs])) of
        Inl x \<Rightarrow> (Inl x, c, w2)
      | Inr v \<Rightarrow>
          if v = PStr ''F7003'' then
            (case request_new_token e c w2 of
               (Inl x, c3, w3) \<Rightarrow> (Inl x, c3, w3)
             | (Inr b, c3, w3) \<Rightarrow> (Inr (), c3, w3))
          else (Inr (), c, w2))"
  by (simp add: test_token_def authorize_header_default send_def reply_id_def bearer_def Let_def
      split: sum.splits)

lemma refresh_result_snd:
  "snd (case request_new_token e c w of
          (Inl x, c3, w3) \<Rightarrow> (Inl x, c3, w3)
        | (Inr b, c3, w3) \<Rightarrow> (Inr (), c3, w3))
     = snd (request_new_token e c w)"
  by (cases "request_new_token e c w") (auto split: sum.splits)

text \<open>The client and the world after \<open>test_token\<close>.\<close>

lemma test_token_snd:
  "snd (test_token e c w) =
     (let hs = AList.update ''Authorization'' (bearer e c) (default_h w);
          w2 = w\<lparr>default_h := hs, sent := sent w @ [probe_request c hs]\<rparr> in
      if reply_id (server e (sent w @ [probe_request c hs])) = Inr (PStr ''F7003'')
      then snd (request_new_token e c w2) else (c, w2))"
proof (cases "reply_id (server e (sent w
               @ [probe_request c (AList.update ''Authorization'' (bearer e c) (default_h w))]))")
  case (Inl x)
  then show ?thesis by (simp add: test_token_eq Let_def)
next
  case (Inr v)
  then show ?thesis
    by (cases "v = PStr ''F7003''") (simp_all add: test_token_eq Let_def refresh_result_snd)
qed

lemma test_token_sent:
  "sent (snd (snd (test_token e c w))) =
     sent w @ probe_request c (AList.update ''Authorization'' (bearer e c) (default_h w))
       # (if reply_id (server e (sent w
               @ [probe_request c (AList.update ''Authorization'' (bearer e c) (default_h w))]))
             = Inr (PStr ''F7003'')
          then [token_request c] else [])"
  by (simp add: test_token_snd Let_def)


lemma test_token_fixed:
  "domain (fst (snd (test_token e c w))) = domain c"
  "dc (fst (snd (test_token e c w))) = dc c"
  by (simp_all add: test_token_snd Let_def)


text \<open>
  C7. \<open>test_token\<close> sends a GET to the user-info URL \<open>/api/v1/users/me\<close> and then
  runs \<open>request_new_token\<close>, which sends the refresh request, if and only if the \<open>id\<close>
  field of the probe reply's JSON is the string \<open>F7003\<close>; in every other case the probe is
  the only request and the client is left as it was.
\<close>

theorem test_token_probe_and_refresh:
  "verb (probe_request c (fst (authorize_header e c None w))) = GET
   \<and> url (probe_request c (fst (authorize_header e c None w)))
       = domain c @ ''.'' @ dc c @ ''/api/v1/users/me''
   \<and> sent (snd (snd (test_token e c w)))
       = sent w @ probe_request c (fst (authorize_header e c None w))
           # (if reply_id (server e (sent w @ [probe_request c (fst (authorize_header e c None w))]))
                  = Inr (PStr ''F7003'')
              then [token_request c] else [])
   \<and> (reply_id (server e (sent w @ [probe_request c (fst (authorize_header e c None w))]))
         = Inr (PStr ''F7003'')
      \<longrightarrow> snd (test_token e c w)
          = snd (request_new_token e c
              (snd (send e (probe_request c (fst (authorize_header e c None w)))
                     (snd (authorize_header e c None w))))))
   \<and> (reply_id (server e (sent w @ [probe_request c (fst (authorize_header e c None w))]))
         \<noteq> Inr (PStr ''F7003'')
      \<longrightarrow> fst (snd (test_token e c w)) = c)"
proof -
  have h: "fst (authorize_header e c None w)
      = AList.update ''Authorization'' (bearer e c) (default_h w)"
    by (simp add: authorize_header_default bearer_def)
  have w2: "snd (send e (probe_request c (fst (authorize_header e c None w)))
                     (snd (authorize_header e c None w)))
      = w\<lparr>default_h := AList.update ''Authorization'' (bearer e c) (default_h w),
           sent := sent w @ [probe_request c
                    (AList.update ''Authorization'' (bearer e c) (default_h w))]\<rparr>"
    by (simp add: authorize_header_default bearer_def send_def)
  show ?thesis
    unfolding w2 unfolding h
    by (simp add: test_token_sent test_token_snd Let_def probe_request_def)
qed

theorem test_token_probe_and_refresh_witness:
  "reply_id (server (sample_env granted rejected)
        (sent world0 @ [probe_request client0 [(''Authorization'', PStr ''Bearer None'')]]))
     = Inr (PStr ''F7003'')
   \<and> reply_id (server (sample_env granted user_info)
        (sent world0 @ [probe_request client0 [(''Authorization'', PStr ''Bearer None'')]]))
     = Inr (PStr ''747938'')
   \<and> sent (snd (snd (test_token (sample_env granted rejected) client0 world0)))
     = [probe_request client0 [(''Authorization'', PStr ''Bearer None'')], token_request client0]
   \<and> access_token (fst (snd (test_token (sample_env granted rejected) client0 world0)))
     = PStr ''tok''
   \<and> sent (snd (snd (test_token (sample_env granted user_info) client0 world0)))
     = [probe_request client0 [(''Authorization'', PStr ''Bearer None'')]]
   \<and> fst (snd (test_token (sample_env granted user_info) client0 world0)) = client0"
proof -
  have h: "fst (authorize_header e client0 None world0) = [(''Authorization'', PStr ''Bearer None'')]"
    for e
    by (simp add: authorize_header_def client0_def world0_def Let_def)
  have hit: "reply_id (server (sample_env granted rejected)
        (sent world0 @ [probe_request client0 [(''Authorization'', PStr ''Bearer None'')]]))
      = Inr (PStr ''F7003'')"
    by (simp add: reply_id_def sample_env_def rejected_def ok_reply_def probe_request_def
        client0_def)
  have miss: "reply_id (server (sample_env granted user_info)
        (sent world0 @ [probe_request client0 [(''Authorization'', PStr ''Bearer None'')]]))
      = Inr (PStr ''747938'')"
    by (simp add: reply_id_def sample_env_def user_info_def ok_reply_def probe_request_def
        client0_def)
  have tok: "access_token (fst (snd (request_new_token (sample_env granted rejected) client0
        (snd (send (sample_env granted rejected)
               (probe_request client0 [(''Authorization'', PStr ''Bearer None'')])
               (snd (authorize_header (sample_env granted rejected) client0 None world0)))))))
      = PStr ''tok''"
    by (simp add: request_new_token_def send_def now_def datetime_add_def datetime_max_def
        sample_env_def granted_def ok_reply_def token_request_def probe_request_def
        authorize_header_def client0_def world0_def Let_def)
  show ?thesis
    using test_token_probe_and_refresh [of client0 "sample_env granted rejected" world0]
      test_token_probe_and_refresh [of client0 "sample_env granted user_info" world0]
      hit miss tok
    by (simp add: h) (simp add: world0_def)
qed

text \<open>
  C10. For a client whose \<open>domain\<close> and \<open>dc\<close> are those its constructor stored, the
  URL that \<open>test_token\<close> probes is \<open>https://<domain>.<dc>.<dc>/api/v1/users/me\<close>, with
  the datacentre twice, and differs from the API domain followed by \<open>/api/v1/users/me\<close>.
\<close>

theorem test_token_probe_url:
  assumes "ZOAuth2Client tokens name dcx = Inr c0"
    and "domain c = domain c0"
    and "dc c = dc c0"
  shows "url (sent (snd (snd (test_token e c w))) ! length (sent w))
           = ''https://'' @ name @ ''.'' @ dcx @ ''.'' @ dcx @ ''/api/v1/users/me''
       \<and> url (sent (snd (snd (test_token e c w))) ! length (sent w))
           \<noteq> domain c @ ''/api/v1/users/me''"
proof -
  have "url (sent (snd (snd (test_token e c w))) ! length (sent w))
      = domain c @ ''.'' @ dc c @ ''/api/v1/users/me''"
    by (simp add: test_token_sent probe_request_def)
  then show ?thesis
    using ZOAuth2Client_fields [OF assms(1)] assms(2,3) by simp
qed

theorem test_token_probe_url_witness:
  "ZOAuth2Client tokens0 ''workdrive.zoho'' ''eu'' = Inr client0
   \<and> url (sent (snd (snd (test_token (sample_env granted user_info) client0 world0)))
            ! length (sent world0))
      = ''https://workdrive.zoho.eu.eu/api/v1/users/me''
   \<and> url (sent (snd (snd (test_token (sample_env granted user_info) client0 world0)))
            ! length (sent world0))
      \<noteq> ''https://workdrive.zoho.eu/api/v1/users/me''"
  using test_token_probe_url [OF ZOAuth2Client_sample, of client0 "sample_env granted user_info" world0]
    ZOAuth2Client_sample
  by (simp add: client0_def)


subsection \<open>The headers argument of query\<close>



end
